theory Spec2Isabelle
  imports Main
begin

section \<open>Data model\<close>

text \<open>
  The tables of the waste-management database that \<^verbatim>\<open>waste_wrangler.py\<close> reads and
  writes. A table is the list of its rows in storage order; a row is a record whose
  fields are the columns the queries of the source name. Identifiers are integers,
  waste types, truck types and names are strings. A timestamp is a number of
  microseconds (the resolution of both \<^verbatim>\<open>datetime\<close> and the SQL type), a date a
  number of days; route lengths are whole, non-negative kilometres.
\<close>

type_synonym timestamp = int
type_synonym date = int

record route_row =
  r_rid :: int
  r_wastetype :: string
  r_length :: nat

record trucktype_row =
  tt_trucktype :: string
  tt_wastetype :: string

record truck_row =
  tk_tid :: int
  tk_trucktype :: string
  tk_capacity :: int

record employee_row =
  e_eid :: int
  e_name :: string
  e_hiredate :: date

record driver_row =
  d_eid :: int
  d_trucktype :: string

record technician_row =
  tn_eid :: int
  tn_trucktype :: string

record facility_row =
  f_fid :: int
  f_wastetype :: string

text \<open>The columns of a trip in the order of the source's \<^verbatim>\<open>INSERT INTO trip\<close>.\<close>

record trip_row =
  tr_rid :: int
  tr_tid :: int
  tr_ttime :: timestamp
  tr_volume :: "int option"
  tr_eid1 :: int
  tr_eid2 :: int
  tr_fid :: int

record maintenance_row =
  m_tid :: int
  m_eid :: int
  m_mdate :: date

text \<open>
  The schema file is not part of the sources, so the declared type of
  \<^verbatim>\<open>route.length\<close> is a parameter of the database: it decides whether the SQL
  expression \<^verbatim>\<open>length / 5\<close> of the view \<^verbatim>\<open>notAval\<close> truncates. Besides the
  tables, the database records whether the view \<^verbatim>\<open>AvalDriver\<close> exists:
  \<open>schedule_trips\<close> creates it and commits it with the trips.
\<close>

datatype coltype = IntegerCol | NumericCol

record db =
  route :: "route_row list"
  trucktype :: "trucktype_row list"
  truck :: "truck_row list"
  employee :: "employee_row list"
  driver :: "driver_row list"
  technician :: "technician_row list"
  facility :: "facility_row list"
  trip :: "trip_row list"
  maintenance :: "maintenance_row list"
  length_col :: coltype
  avaldriver_view :: bool

definition empty_db :: db where
  "empty_db = \<lparr>route = [], trucktype = [], truck = [], employee = [], driver = [],
     technician = [], facility = [], trip = [], maintenance = [], length_col = IntegerCol,
     avaldriver_view = False\<rparr>"

text \<open>What a method call does: it returns a value or lets a Python exception escape.\<close>

datatype py_error = TypeError

datatype 'a outcome = Returned 'a | Raised py_error

section \<open>Dates and times\<close>

text \<open>
  The calendar date of a timestamp (the SQL cast \<^verbatim>\<open>::date\<close>), and the lengths of
  an hour and of half an hour in microseconds.
\<close>

definition date_of :: "timestamp \<Rightarrow> date" where
  "date_of t = t div 86400000000"

definition usec_per_hour :: int where
  "usec_per_hour = 3600000000"

definition half_hour :: int where
  "half_hour = 1800000000"

section \<open>workmate_sphere\<close>

text \<open>
  The first query: \<^verbatim>\<open>(SELECT eid1 FROM trip WHERE eid2 = eid) UNION
  (SELECT eid2 FROM trip WHERE eid1 = eid)\<close>; \<^verbatim>\<open>UNION\<close> removes duplicates.
\<close>

definition direct_workmate :: "db \<Rightarrow> int \<Rightarrow> int list" where
  "direct_workmate db eid =
     remdups (map tr_eid1 [t \<leftarrow> trip db. tr_eid2 t = eid] @
              map tr_eid2 [t \<leftarrow> trip db. tr_eid1 t = eid])"

text \<open>The query inside the loop, for one direct workmate \<open>e\<close>.\<close>

definition second_layer :: "db \<Rightarrow> int \<Rightarrow> int \<Rightarrow> int list" where
  "second_layer db eid e =
     remdups (map tr_eid1 [t \<leftarrow> trip db. tr_eid2 t = e \<and> tr_eid1 t \<noteq> eid] @
              map tr_eid2 [t \<leftarrow> trip db. tr_eid1 t = e \<and> tr_eid2 t \<noteq> eid])"

text \<open>The \<^verbatim>\<open>for e in direct_workmate\<close> loop, with the Python set \<^verbatim>\<open>result\<close>.\<close>

fun sphere_loop :: "db \<Rightarrow> int \<Rightarrow> int list \<Rightarrow> int set \<Rightarrow> int set" where
  "sphere_loop db eid [] result = result"
| "sphere_loop db eid (e # es) result =
     sphere_loop db eid es (fold insert (second_layer db eid e) (insert e result))"

text \<open>
  The method returns \<^verbatim>\<open>list(result)\<close>, a list without duplicates in no
  particular order; the model returns the set itself.
\<close>

definition workmate_sphere :: "db \<Rightarrow> int \<Rightarrow> int set" where
  "workmate_sphere db eid =
     (if [d \<leftarrow> driver db. d_eid d = eid] = [] then {}
      else if direct_workmate db eid = [] then {}
      else sphere_loop db eid (direct_workmate db eid) {})"

text \<open>
  The specification's words: the undirected graph whose edges are the driver pairs of
  the trips, and the employees reachable from \<open>eid\<close> in it, \<open>eid\<close> excluded.
\<close>

definition trip_edges :: "db \<Rightarrow> (int \<times> int) set" where
  "trip_edges db = (\<lambda>t. (tr_eid1 t, tr_eid2 t)) ` set (trip db)"

definition reachable_workmates :: "db \<Rightarrow> int \<Rightarrow> int set" where
  "reachable_workmates db eid =
     {y. (eid, y) \<in> (trip_edges db \<union> (trip_edges db)\<inverse>)\<^sup>+} - {eid}"

text \<open>
  Four drivers, three trips: 1 with 2, 2 with 3, 3 with 4.
\<close>

definition mk_trip :: "int \<Rightarrow> int \<Rightarrow> timestamp \<Rightarrow> int \<Rightarrow> int \<Rightarrow> int \<Rightarrow> trip_row" where
  "mk_trip rid tid ttime eid1 eid2 fid =
     \<lparr>tr_rid = rid, tr_tid = tid, tr_ttime = ttime, tr_volume = None,
      tr_eid1 = eid1, tr_eid2 = eid2, tr_fid = fid\<rparr>"

definition chain_db :: db where
  "chain_db = empty_db
     \<lparr>driver := [\<lparr>d_eid = 1, d_trucktype = ''A''\<rparr>, \<lparr>d_eid = 2, d_trucktype = ''A''\<rparr>,
                 \<lparr>d_eid = 3, d_trucktype = ''A''\<rparr>, \<lparr>d_eid = 4, d_trucktype = ''A''\<rparr>],
      trip := [mk_trip 1 1 0 2 1 1, mk_trip 2 1 86400000000 3 2 1,
               mk_trip 3 1 172800000000 4 3 1]\<rparr>"

section \<open>schedule_maintenance\<close>

text \<open>
  The first query: the truck ids of the maintenance table, \<^verbatim>\<open>EXCEPT\<close> those with
  a record at most 90 days before \<open>date\<close> (\<^verbatim>\<open>date - mdate <= 90\<close>, which also
  holds for every record on or after \<open>date\<close>), \<^verbatim>\<open>EXCEPT\<close> those with a record in
  the ten days after \<open>date\<close>. The query has no \<^verbatim>\<open>ORDER BY\<close>; the model lists the
  ids in table order.
\<close>

definition trucks_to_maintain :: "db \<Rightarrow> date \<Rightarrow> int list" where
  "trucks_to_maintain db date =
     [tid \<leftarrow> remdups (map m_tid (maintenance db)).
        tid \<notin> set (map m_tid [m \<leftarrow> maintenance db. date - m_mdate m \<le> 90]) \<and>
        tid \<notin> set (map m_tid [m \<leftarrow> maintenance db.
                       m_mdate m - date \<le> 10 \<and> m_mdate m - date > 0])]"

text \<open>
  The scalar subquery \<^verbatim>\<open>(SELECT trucktype FROM truck WHERE tid = %s)\<close>: no row
  gives NULL, one row its truck type, several rows are an error of the database, which
  the method's \<^verbatim>\<open>except pg.Error\<close> turns into the result 0 with nothing committed.
\<close>

datatype pg_error = CardinalityViolation

definition truck_trucktype :: "db \<Rightarrow> int \<Rightarrow> pg_error + string option" where
  "truck_trucktype db tid =
     (case [k \<leftarrow> truck db. tk_tid k = tid] of
        [] \<Rightarrow> Inr None
      | [k] \<Rightarrow> Inr (Some (tk_trucktype k))
      | _ \<Rightarrow> Inl CardinalityViolation)"

text \<open>\<^verbatim>\<open>SELECT * FROM technician WHERE trucktype = (...)\<close>; nothing equals NULL.\<close>

definition matching_technicians :: "db \<Rightarrow> int \<Rightarrow> pg_error + technician_row list" where
  "matching_technicians db tid =
     (case truck_trucktype db tid of
        Inl e \<Rightarrow> Inl e
      | Inr None \<Rightarrow> Inr []
      | Inr (Some tt) \<Rightarrow> Inr [tn \<leftarrow> technician db. tn_trucktype tn = tt])"

text \<open>
  The matching technicians \<^verbatim>\<open>EXCEPT\<close> the employees with a maintenance record on
  \<open>cur_date\<close>, \<^verbatim>\<open>ORDER BY eid\<close>.
\<close>

definition available_technicians :: "db \<Rightarrow> technician_row list \<Rightarrow> date \<Rightarrow> int list" where
  "available_technicians db techs cur_date =
     sort (remdups [eid \<leftarrow> map tn_eid techs.
        eid \<notin> set (map m_eid [m \<leftarrow> maintenance db. cur_date - m_mdate m = 0])])"

text \<open>
  The \<^verbatim>\<open>while not_found_and_exist_match_technician\<close> loop for one truck. It has no
  bound in the source, so it is a partial function: not returning is \<open>None\<close>. The
  result is what the iteration adds to \<^verbatim>\<open>success\<close> and the database after the
  \<^verbatim>\<open>INSERT\<close>.
\<close>

partial_function (option) day_search ::
  "db \<Rightarrow> int \<Rightarrow> date \<Rightarrow> (pg_error + nat \<times> db) option" where
  "day_search db tid cur_date =
     (case matching_technicians db tid of
        Inl e \<Rightarrow> Some (Inl e)
      | Inr [] \<Rightarrow> Some (Inr (0, db))
      | Inr (tn # tns) \<Rightarrow>
          (case available_technicians db (tn # tns) cur_date of
             [] \<Rightarrow> day_search db tid (cur_date + 1)
           | eid # _ \<Rightarrow> Some (Inr (1, db\<lparr>maintenance := maintenance db @
                 [\<lparr>m_tid = tid, m_eid = eid, m_mdate = cur_date\<rparr>]\<rparr>))))"

text \<open>The \<^verbatim>\<open>for truck in trucks_to_maintain\<close> loop; each search starts at \<open>date + 1\<close>.\<close>

fun maintain_loop :: "date \<Rightarrow> int list \<Rightarrow> nat \<Rightarrow> db \<Rightarrow> (pg_error + nat \<times> db) option" where
  "maintain_loop date [] success db = Some (Inr (success, db))"
| "maintain_loop date (tid # rest) success db =
     (case day_search db tid (date + 1) of
        None \<Rightarrow> None
      | Some (Inl e) \<Rightarrow> Some (Inl e)
      | Some (Inr (n, db')) \<Rightarrow> maintain_loop date rest (success + n) db')"

text \<open>
  The method: the returned count and the committed database. On a database error the
  transaction is never committed, so the database is the one the call started from.
\<close>

definition schedule_maintenance :: "db \<Rightarrow> date \<Rightarrow> (int \<times> db) option" where
  "schedule_maintenance db date =
     (case trucks_to_maintain db date of
        [] \<Rightarrow> Some (0, db)
      | tid # rest \<Rightarrow>
          (case maintain_loop date (tid # rest) 0 db of
             None \<Rightarrow> None
           | Some (Inl e) \<Rightarrow> Some (0, db)
           | Some (Inr (n, db')) \<Rightarrow> Some (int n, db')))"

text \<open>
  The specification's words for the candidates: a truck with at least one maintenance
  record, whose most recent record is more than 90 days before \<open>date\<close>, and with no
  record in the days \<open>date\<close> to \<open>date + 10\<close>.
\<close>

definition maintenance_dates :: "db \<Rightarrow> int \<Rightarrow> date list" where
  "maintenance_dates db tid = map m_mdate [m \<leftarrow> maintenance db. m_tid m = tid]"

definition maintenance_due :: "db \<Rightarrow> date \<Rightarrow> int \<Rightarrow> bool" where
  "maintenance_due db date tid \<longleftrightarrow>
     maintenance_dates db tid \<noteq> [] \<and>
     90 < date - Max (set (maintenance_dates db tid)) \<and>
     [d \<leftarrow> maintenance_dates db tid. date \<le> d \<and> d \<le> date + 10] = []"

text \<open>
  Truck 1 was last maintained on day 0 by technician 7 and has a trip at 08:00 of day
  101.
\<close>

definition busy_truck_db :: db where
  "busy_truck_db = empty_db
     \<lparr>truck := [\<lparr>tk_tid = 1, tk_trucktype = ''A'', tk_capacity = 10\<rparr>],
      technician := [\<lparr>tn_eid = 7, tn_trucktype = ''A''\<rparr>],
      trip := [mk_trip 1 1 8755200000000 2 1 1],
      maintenance := [\<lparr>m_tid = 1, m_eid = 7, m_mdate = 0\<rparr>]\<rparr>"

section \<open>Trips: shared parts\<close>

text \<open>
  The duration of a trip at 5 kilometres per hour: \<^verbatim>\<open>length / 5\<close> hours, computed
  by Python with true division, is twelve minutes for each kilometre.
\<close>

definition trip_usec :: "nat \<Rightarrow> int" where
  "trip_usec len = int len * 720000000"

text \<open>
  The duration as the view \<^verbatim>\<open>notAval\<close> computes it,
  \<^verbatim>\<open>length / 5 * interval '1 hour'\<close>: on an integer column the SQL division
  truncates.
\<close>

definition sql_trip_usec :: "coltype \<Rightarrow> nat \<Rightarrow> int" where
  "sql_trip_usec c len =
     (case c of IntegerCol \<Rightarrow> int (len div 5) * usec_per_hour | NumericCol \<Rightarrow> trip_usec len)"

text \<open>
  \<^verbatim>\<open>time.replace(hour=h, minute=0, second=0)\<close>: the hour \<open>h\<close> of the same day; the
  microseconds of \<open>time\<close> stay. \<^verbatim>\<open>datetime.combine(date, time(h, 0))\<close> is the hour
  \<open>h\<close> of \<open>date\<close>.
\<close>

definition replace_hour :: "timestamp \<Rightarrow> int \<Rightarrow> timestamp" where
  "replace_hour t h = date_of t * 86400000000 + h * usec_per_hour + t mod 1000000"

definition combine :: "date \<Rightarrow> int \<Rightarrow> timestamp" where
  "combine d h = d * 86400000000 + h * usec_per_hour"

text \<open>
  The SQL predicate \<^verbatim>\<open>(s1, e1) OVERLAPS (s2, e2)\<close> of PostgreSQL: each pair is put
  in order, stands for the half-open period from its start to its end, or for the
  single instant when both are equal; two periods with the same start always overlap.
\<close>

definition pg_overlaps :: "timestamp \<times> timestamp \<Rightarrow> timestamp \<times> timestamp \<Rightarrow> bool" where
  "pg_overlaps p q =
     (let s1 = min (fst p) (snd p); e1 = max (fst p) (snd p);
          s2 = min (fst q) (snd q); e2 = max (fst q) (snd q)
      in if s1 > s2 then s1 < e2 else if s1 < s2 then s2 < e1 else True)"

text \<open>
  The search for the second driver, written twice in the source with the same
  \<^verbatim>\<open>while tup is not None and not_found\<close> loop: the first later row with the truck's
  type and an employee other than the first driver. A row is \<open>(eid, trucktype)\<close>.
\<close>

fun scan_for_driver :: "string \<Rightarrow> int \<Rightarrow> (int \<times> string) list \<Rightarrow> (int \<times> string) option" where
  "scan_for_driver tt e1 [] = None"
| "scan_for_driver tt e1 (tup # rest) =
     (if snd tup = tt \<and> fst tup \<noteq> e1 then Some tup else scan_for_driver tt e1 rest)"

text \<open>
  \<^verbatim>\<open>INSERT INTO trip VALUES (rid, tid, time, NULL, max(e1, e2), min(e1, e2), fid)\<close>.
\<close>

definition new_trip :: "int \<Rightarrow> int \<Rightarrow> timestamp \<Rightarrow> int \<Rightarrow> int \<Rightarrow> int \<Rightarrow> trip_row" where
  "new_trip rid tid ttime e1 e2 fid =
     \<lparr>tr_rid = rid, tr_tid = tid, tr_ttime = ttime, tr_volume = None,
      tr_eid1 = max e1 e2, tr_eid2 = min e1 e2, tr_fid = fid\<rparr>"

definition insert_trip :: "db \<Rightarrow> trip_row \<Rightarrow> db" where
  "insert_trip db t = db\<lparr>trip := trip db @ [t]\<rparr>"

section \<open>schedule_trips\<close>

text \<open>
  \<^verbatim>\<open>SELECT trucktype, wastetype FROM trucktype JOIN truck USING (trucktype) WHERE
  tid = %s\<close>.
\<close>

definition target_truck :: "db \<Rightarrow> int \<Rightarrow> (string \<times> string) list" where
  "target_truck db tid =
     map (\<lambda>(tt, k). (tt_trucktype tt, tt_wastetype tt))
       [(tt, k) \<leftarrow> List.product (trucktype db) (truck db).
          tt_trucktype tt = tk_trucktype k \<and> tk_tid k = tid]"

text \<open>
  The trips of a calendar date, and the routes of the truck's waste type without a trip
  on the date, \<^verbatim>\<open>SELECT DISTINCT rid, length ... ORDER BY rid\<close>.
\<close>

definition trips_on :: "db \<Rightarrow> date \<Rightarrow> trip_row list" where
  "trips_on db date = [t \<leftarrow> trip db. date_of (tr_ttime t) - date = 0]"

definition aval_route :: "db \<Rightarrow> string \<Rightarrow> date \<Rightarrow> (int \<times> nat) list" where
  "aval_route db wt date =
     sort_key fst (remdups (map (\<lambda>r. (r_rid r, r_length r))
       [r \<leftarrow> route db. r_wastetype r = wt \<and> r_rid r \<notin> set (map tr_rid (trips_on db date))]))"

text \<open>
  The view \<^verbatim>\<open>AvalDriver\<close>: the driver ids \<^verbatim>\<open>EXCEPT\<close> both driver columns of the
  trips of the date. The rows \<^verbatim>\<open>SELECT DISTINCT eid, trucktype, hiredate\<close> of the
  available drivers are ordered by hire date, then id; an employee has one row for each
  truck type, and SQL leaves the order of these open: the model keeps table order
  (both sorts are stable). Only \<open>eid\<close> and \<open>trucktype\<close> are read afterwards.
\<close>

definition AvalDriver :: "db \<Rightarrow> date \<Rightarrow> int list" where
  "AvalDriver db date =
     [eid \<leftarrow> remdups (map d_eid (driver db)).
        eid \<notin> set (map tr_eid1 (trips_on db date)) \<and>
        eid \<notin> set (map tr_eid2 (trips_on db date))]"

definition aval_driver_rows :: "db \<Rightarrow> date \<Rightarrow> (int \<times> string) list" where
  "aval_driver_rows db date =
     map (\<lambda>(eid, tt, hiredate). (eid, tt))
       (sort_key (\<lambda>(eid, tt, hiredate). hiredate) (sort_key (\<lambda>(eid, tt, hiredate). eid)
         (remdups (map (\<lambda>(d, e). (d_eid d, d_trucktype d, e_hiredate e))
            [(d, e) \<leftarrow> List.product (driver db) (employee db).
               d_eid d = e_eid e \<and> d_eid d \<in> set (AvalDriver db date)]))))"

text \<open>
  \<^verbatim>\<open>SELECT fid FROM facility WHERE wastetype = %s ORDER BY fid\<close>.
\<close>

definition facilities_for :: "db \<Rightarrow> string \<Rightarrow> int list" where
  "facilities_for db wt = sort (map f_fid [f \<leftarrow> facility db. f_wastetype f = wt])"

text \<open>
  The \<^verbatim>\<open>while working_hrs and i < len(route_hrs)\<close> loop. Each iteration, whether it
  inserts or sets \<^verbatim>\<open>working_hrs = False\<close>, ends with \<^verbatim>\<open>i += 1\<close>; the method
  returns \<open>i\<close>.
\<close>

fun trips_loop ::
  "int \<Rightarrow> int \<Rightarrow> int \<Rightarrow> int \<Rightarrow> timestamp \<Rightarrow> (int \<times> nat) list \<Rightarrow> timestamp \<Rightarrow> nat \<Rightarrow> db \<Rightarrow> nat \<times> db" where
  "trips_loop tid e1 e2 fid off_time [] start_time i db = (i, db)"
| "trips_loop tid e1 e2 fid off_time ((rid, len) # rest) start_time i db =
     (let end_time = start_time + trip_usec len
      in if end_time < off_time
         then trips_loop tid e1 e2 fid off_time rest (end_time + half_hour) (i + 1)
                (insert_trip db (new_trip rid tid start_time e1 e2 fid))
         else (i + 1, db))"

text \<open>
  The method: the returned number and the committed database. The check
  \<^verbatim>\<open>cur.rowcount < 2\<close> counts driver rows. Each \<^verbatim>\<open>return 0\<close> after
  \<^verbatim>\<open>CREATE VIEW AvalDriver\<close> drops the view and rolls back; the path that inserts
  trips commits without dropping it. When the view exists already,
  \<^verbatim>\<open>CREATE VIEW\<close> fails, and \<^verbatim>\<open>except pg.Error\<close> returns \<^verbatim>\<open>False\<close>, which is
  0, with nothing committed.
\<close>

definition schedule_trips :: "db \<Rightarrow> int \<Rightarrow> date \<Rightarrow> int \<times> db" where
  "schedule_trips db tid date =
     (case target_truck db tid of
        [] \<Rightarrow> (0, db)
      | (tt, wt) # _ \<Rightarrow>
     (case aval_route db wt date of
        [] \<Rightarrow> (0, db)
      | r # rs \<Rightarrow>
     if avaldriver_view db then (0, db) else
     (case aval_driver_rows db date of
        [] \<Rightarrow> (0, db)
      | [d] \<Rightarrow> (0, db)
      | d_one # tup # rest \<Rightarrow>
     (case (if snd d_one = tt then Some tup
            else scan_for_driver tt (fst d_one) (tup # rest)) of
        None \<Rightarrow> (0, db)
      | Some d_two \<Rightarrow>
     (case facilities_for db wt of
        [] \<Rightarrow> (0, db)
      | fid # _ \<Rightarrow>
          (let (i, db') = trips_loop tid (fst d_one) (fst d_two) fid (combine date 16)
                             (r # rs) (combine date 8) 0 db
           in (int i, db'\<lparr>avaldriver_view := True\<rparr>)))))))"

text \<open>
  One truck, three routes of its waste type taking 2, 1 and 5 hours, two drivers and a
  facility; no trips.
\<close>

definition batch_db :: db where
  "batch_db = empty_db
     \<lparr>route := [\<lparr>r_rid = 1, r_wastetype = ''w'', r_length = 10\<rparr>,
                \<lparr>r_rid = 2, r_wastetype = ''w'', r_length = 5\<rparr>,
                \<lparr>r_rid = 3, r_wastetype = ''w'', r_length = 25\<rparr>],
      trucktype := [\<lparr>tt_trucktype = ''A'', tt_wastetype = ''w''\<rparr>],
      truck := [\<lparr>tk_tid = 1, tk_trucktype = ''A'', tk_capacity = 10\<rparr>],
      employee := [\<lparr>e_eid = 1, e_name = ''a'', e_hiredate = 0\<rparr>,
                   \<lparr>e_eid = 2, e_name = ''b'', e_hiredate = 0\<rparr>],
      driver := [\<lparr>d_eid = 1, d_trucktype = ''A''\<rparr>, \<lparr>d_eid = 2, d_trucktype = ''A''\<rparr>],
      facility := [\<lparr>f_fid = 1, f_wastetype = ''w''\<rparr>]\<rparr>"

section \<open>schedule_trip\<close>

text \<open>
  \<^verbatim>\<open>SELECT fid FROM route NATURAL JOIN facility WHERE rid = %s ORDER BY fid\<close>; the
  common column is the waste type.
\<close>

definition best_facilities :: "db \<Rightarrow> int \<Rightarrow> int list" where
  "best_facilities db rid =
     sort (map (\<lambda>(r, f). f_fid f)
       [(r, f) \<leftarrow> List.product (route db) (facility db).
          r_wastetype r = f_wastetype f \<and> r_rid r = rid])"

text \<open>
  The view \<^verbatim>\<open>notAval\<close>: the trips, joined with their routes, whose period
  overlaps the period from half an hour before \<open>time\<close> to half an hour after
  \<open>trip_end\<close>.
\<close>

definition notAval :: "db \<Rightarrow> timestamp \<Rightarrow> timestamp \<Rightarrow> (trip_row \<times> route_row) list" where
  "notAval db time trip_end =
     [(t, r) \<leftarrow> List.product (trip db) (route db).
        tr_rid t = r_rid r \<and>
        pg_overlaps (time - half_hour, trip_end + half_hour)
          (tr_ttime t, tr_ttime t + sql_trip_usec (length_col db) (r_length r))]"

text \<open>
  The views \<^verbatim>\<open>availableEmployees\<close> (driver rows) and \<^verbatim>\<open>availableTrucks\<close>.
\<close>

definition availableEmployees :: "db \<Rightarrow> timestamp \<Rightarrow> timestamp \<Rightarrow> driver_row list" where
  "availableEmployees db time trip_end =
     [d \<leftarrow> driver db.
        d_eid d \<notin> set (map (\<lambda>(t, r). tr_eid1 t) (notAval db time trip_end)) \<and>
        d_eid d \<notin> set (map (\<lambda>(t, r). tr_eid2 t) (notAval db time trip_end))]"

definition availableTrucks :: "db \<Rightarrow> timestamp \<Rightarrow> timestamp \<Rightarrow> truck_row list" where
  "availableTrucks db time trip_end =
     [k \<leftarrow> truck db.
        tk_tid k \<notin> set (map (\<lambda>(t, r). tr_tid t) (notAval db time trip_end)) \<and>
        tk_tid k \<notin> set (map m_tid [m \<leftarrow> maintenance db. m_mdate m - date_of time = 0])]"

text \<open>
  The available trucks \<^verbatim>\<open>INTERSECT\<close> the trucks whose type carries the route's
  waste type, \<^verbatim>\<open>ORDER BY capacity DESC, tid\<close>.
\<close>

definition best_trucks :: "db \<Rightarrow> int \<Rightarrow> timestamp \<Rightarrow> timestamp \<Rightarrow> truck_row list" where
  "best_trucks db rid time trip_end =
     sort_key (\<lambda>k. - tk_capacity k) (sort_key tk_tid (remdups
       [k \<leftarrow> [k \<leftarrow> truck db. tk_tid k \<in> set (map tk_tid (availableTrucks db time trip_end))].
          k \<in> set (map (\<lambda>(k, tt, r). k)
            [(k, tt, r) \<leftarrow> List.product (truck db) (List.product (trucktype db) (route db)).
               tk_trucktype k = tt_trucktype tt \<and> tt_wastetype tt = r_wastetype r \<and>
               r_rid r = rid])]))"

text \<open>
  \<^verbatim>\<open>SELECT employee.eid, trucktype FROM availableEmployees NATURAL JOIN employee
  ORDER BY hiredate, employee.eid\<close>: one row for each driver qualification; rows of
  the same employee stay in table order.
\<close>

definition best_employees :: "db \<Rightarrow> timestamp \<Rightarrow> timestamp \<Rightarrow> (int \<times> string) list" where
  "best_employees db time trip_end =
     map (\<lambda>(d, e). (e_eid e, d_trucktype d))
       (sort_key (\<lambda>(d, e). e_hiredate e) (sort_key (\<lambda>(d, e). e_eid e)
          [(d, e) \<leftarrow> List.product (availableEmployees db time trip_end) (employee db).
             d_eid d = e_eid e]))"

text \<open>
  The method, called on a connection with no transaction in progress: what the call
  does and the committed database. Every \<^verbatim>\<open>return False\<close> comes after a rollback
  or before any write; the three views are dropped before the commit, and a rollback
  removes them too. When the first row drives the truck's type and is the only row,
  \<^verbatim>\<open>best_e_two\<close> is \<^verbatim>\<open>None\<close> and \<^verbatim>\<open>best_e_two[0]\<close> raises
  \<^verbatim>\<open>TypeError\<close>, which \<^verbatim>\<open>except pg.Error\<close> does not catch; nothing has been
  committed then.
\<close>

definition schedule_trip :: "db \<Rightarrow> int \<Rightarrow> timestamp \<Rightarrow> bool outcome \<times> db" where
  "schedule_trip db rid time =
     (case [r \<leftarrow> route db. r_rid r = rid] of
        [] \<Rightarrow> (Returned False, db)
      | r # _ \<Rightarrow>
     (let trip_end = time + trip_usec (r_length r)
      in if time < replace_hour time 8 \<or> time > replace_hour time 16 \<or>
            trip_end > replace_hour time 16
         then (Returned False, db)
         else if [t \<leftarrow> trip db. tr_rid t = rid \<and> date_of (tr_ttime t) - date_of time = 0] \<noteq> []
         then (Returned False, db)
         else
     (case best_facilities db rid of
        [] \<Rightarrow> (Returned False, db)
      | best_f # _ \<Rightarrow>
     (case best_trucks db rid time trip_end of
        [] \<Rightarrow> (Returned False, db)
      | best_truck # _ \<Rightarrow>
     (case best_employees db time trip_end of
        [] \<Rightarrow> (Returned False, db)
      | best_e_one # rest \<Rightarrow>
          if snd best_e_one = tk_trucktype best_truck
          then (case rest of
                  [] \<Rightarrow> (Raised TypeError, db)
                | best_e_two # _ \<Rightarrow>
                    (Returned True, insert_trip db (new_trip rid (tk_tid best_truck) time
                       (fst best_e_one) (fst best_e_two) best_f)))
          else (case scan_for_driver (tk_trucktype best_truck) (fst best_e_one) rest of
                  None \<Rightarrow> (Returned False, db)
                | Some best_e_two \<Rightarrow>
                    (Returned True, insert_trip db (new_trip rid (tk_tid best_truck) time
                       (fst best_e_one) (fst best_e_two) best_f))))))))"

section \<open>The stated properties and example databases\<close>

text \<open>
  The working hours as the claim states them: the start in [08:00, 16:00) of its day
  and the computed end at most 16:00.
\<close>

definition claimed_working_hours :: "timestamp \<Rightarrow> nat \<Rightarrow> bool" where
  "claimed_working_hours start len \<longleftrightarrow>
     combine (date_of start) 8 \<le> start \<and> start < combine (date_of start) 16 \<and>
     start + trip_usec len \<le> combine (date_of start) 16"

text \<open>
  The working hours with both ends included: the start in [08:00, 16:00] of its day and
  the computed end at most 16:00.
\<close>

definition within_working_hours :: "timestamp \<Rightarrow> nat \<Rightarrow> bool" where
  "within_working_hours start len \<longleftrightarrow>
     combine (date_of start) 8 \<le> start \<and> start \<le> combine (date_of start) 16 \<and>
     start + trip_usec len \<le> combine (date_of start) 16"



text \<open>
  Employee 1 is qualified for two truck types, employee 2 for type B only; the only
  truck has type A.
\<close>

definition two_quals_db :: db where
  "two_quals_db = empty_db
     \<lparr>route := [\<lparr>r_rid = 1, r_wastetype = ''w'', r_length = 5\<rparr>],
      trucktype := [\<lparr>tt_trucktype = ''A'', tt_wastetype = ''w''\<rparr>,
                    \<lparr>tt_trucktype = ''B'', tt_wastetype = ''v''\<rparr>],
      truck := [\<lparr>tk_tid = 1, tk_trucktype = ''A'', tk_capacity = 10\<rparr>],
      employee := [\<lparr>e_eid = 1, e_name = ''a'', e_hiredate = 0\<rparr>,
                   \<lparr>e_eid = 2, e_name = ''b'', e_hiredate = 5\<rparr>],
      driver := [\<lparr>d_eid = 1, d_trucktype = ''A''\<rparr>, \<lparr>d_eid = 1, d_trucktype = ''B''\<rparr>,
                 \<lparr>d_eid = 2, d_trucktype = ''B''\<rparr>],
      facility := [\<lparr>f_fid = 1, f_wastetype = ''w''\<rparr>]\<rparr>"

text \<open>
  The database \<open>batch_db\<close> with a route of length 0 and a route of one hour; then
  with a trip on the route of length 0 at 08:00 of day 0.
\<close>

definition zero_route_db :: db where
  "zero_route_db = batch_db
     \<lparr>route := [\<lparr>r_rid = 1, r_wastetype = ''w'', r_length = 0\<rparr>,
                \<lparr>r_rid = 2, r_wastetype = ''w'', r_length = 5\<rparr>]\<rparr>"


text \<open>
  The trips joined with their routes, the computed end of a trip, and when two trips
  share a truck or a driver.
\<close>

definition trip_windows :: "db \<Rightarrow> (trip_row \<times> route_row) list" where
  "trip_windows db = [(t, r) \<leftarrow> List.product (trip db) (route db). tr_rid t = r_rid r]"

definition computed_end :: "trip_row \<times> route_row \<Rightarrow> timestamp" where
  "computed_end w = tr_ttime (fst w) + trip_usec (r_length (snd w))"

definition share_resource :: "trip_row \<Rightarrow> trip_row \<Rightarrow> bool" where
  "share_resource t u \<longleftrightarrow>
     tr_tid t = tr_tid u \<or> tr_eid1 t = tr_eid1 u \<or> tr_eid1 t = tr_eid2 u \<or>
     tr_eid2 t = tr_eid1 u \<or> tr_eid2 t = tr_eid2 u"

text \<open>
  A property of every pair of different positions of a list.
\<close>

fun all_pairs :: "('a \<Rightarrow> 'a \<Rightarrow> bool) \<Rightarrow> 'a list \<Rightarrow> bool" where
  "all_pairs P [] = True"
| "all_pairs P (x # xs) = (list_all (P x) xs \<and> all_pairs P xs)"

text \<open>
  The invariant: of two trips that share a truck or a driver, one ends at least half an
  hour before the other starts, so that their windows, with the half hour of buffer the
  availability rule applies, do not overlap (exactly half an hour apart is allowed).
\<close>

definition apart :: "trip_row \<times> route_row \<Rightarrow> trip_row \<times> route_row \<Rightarrow> bool" where
  "apart w v \<longleftrightarrow>
     computed_end w + half_hour \<le> tr_ttime (fst v) \<or>
     computed_end v + half_hour \<le> tr_ttime (fst w)"

definition half_hour_apart :: "db \<Rightarrow> bool" where
  "half_hour_apart db =
     all_pairs (\<lambda>w v. if share_resource (fst w) (fst v) then apart w v else True)
       (trip_windows db)"

text \<open>
  The database \<open>batch_db\<close> with four drivers and a trip of truck 1 on route 1 at
  08:00 of day 0, driven by employees 1 and 2.
\<close>

definition busy_day_db :: db where
  "busy_day_db = batch_db
     \<lparr>employee := [\<lparr>e_eid = 1, e_name = ''a'', e_hiredate = 0\<rparr>,
                   \<lparr>e_eid = 2, e_name = ''b'', e_hiredate = 0\<rparr>,
                   \<lparr>e_eid = 3, e_name = ''c'', e_hiredate = 0\<rparr>,
                   \<lparr>e_eid = 4, e_name = ''d'', e_hiredate = 0\<rparr>],
      driver := [\<lparr>d_eid = 1, d_trucktype = ''A''\<rparr>, \<lparr>d_eid = 2, d_trucktype = ''A''\<rparr>,
                 \<lparr>d_eid = 3, d_trucktype = ''A''\<rparr>, \<lparr>d_eid = 4, d_trucktype = ''A''\<rparr>],
      trip := [mk_trip 1 1 28800000000 2 1 1]\<rparr>"

section \<open>Theorems\<close>

subsection \<open>workmate_sphere\<close>

text \<open>
  C1. The claim: for a known driver, \<open>workmate_sphere\<close> returns every employee
  reachable over any number of shared trips. The method expands two layers only: on the
  chain 1-2, 2-3, 3-4 it returns \<open>{2, 3}\<close> for driver 1, although 4 is reachable
  from 1 in the trip graph.
\<close>

theorem workmate_sphere_stops_after_two_layers:
  "workmate_sphere chain_db 1 = {2, 3} \<and> 4 \<in> reachable_workmates chain_db 1"
proof
  show "workmate_sphere chain_db 1 = {2, 3}"
    by (auto simp add: workmate_sphere_def direct_workmate_def second_layer_def
        chain_db_def empty_db_def mk_trip_def)
next
  let ?E = "trip_edges chain_db \<union> (trip_edges chain_db)\<inverse>"
  have e12: "(1, 2) \<in> ?E" and e23: "(2, 3) \<in> ?E" and e34: "(3, 4) \<in> ?E"
    by (simp_all add: trip_edges_def chain_db_def empty_db_def mk_trip_def)
  have "(1, 4) \<in> ?E\<^sup>+"
    using e12 e23 e34 by (meson trancl.intros)
  then show "4 \<in> reachable_workmates chain_db 1"
    by (simp add: reachable_workmates_def)
qed

subsection \<open>schedule_maintenance\<close>

lemma day_search_far:
  assumes "\<forall>m \<in> set (maintenance db). m_mdate m < cur"
  shows "\<exists>r. day_search db tid cur = Some r"
proof (cases "matching_technicians db tid")
  case (Inl e) then show ?thesis by (subst day_search.simps) simp
next
  case (Inr techs)
  show ?thesis
  proof (cases techs)
    case Nil with Inr show ?thesis by (subst day_search.simps) simp
  next
    case (Cons tn tns)
    have "[m \<leftarrow> maintenance db. cur - m_mdate m = 0] = []"
      using assms by (auto simp: filter_empty_conv)
    then have "tn_eid tn \<in> set (available_technicians db (tn # tns) cur)"
      by (simp add: available_technicians_def)
    then obtain e es where "available_technicians db (tn # tns) cur = e # es"
      by (cases "available_technicians db (tn # tns) cur") auto
    with Inr Cons show ?thesis by (subst day_search.simps) simp
  qed
qed


lemma day_search_step:
  "(\<exists>r. day_search db tid cur = Some r) \<or> day_search db tid cur = day_search db tid (cur + 1)"
  by (simp add: day_search.simps [of db tid cur] split: sum.splits list.splits)

lemma day_search_bounded:
  assumes "\<forall>m \<in> set (maintenance db). m_mdate m < b"
  shows "b - cur \<le> int n \<Longrightarrow> \<exists>r. day_search db tid cur = Some r"
proof (induction n arbitrary: cur)
  case 0
  then have "\<forall>m \<in> set (maintenance db). m_mdate m < cur" using assms by fastforce
  then show ?case by (rule day_search_far)
next
  case (Suc n)
  then have "b - (cur + 1) \<le> int n" by simp
  then have "\<exists>r. day_search db tid (cur + 1) = Some r" by (rule Suc.IH)
  then show ?case using day_search_step [of db tid cur] by auto
qed

lemma mdate_bound: "\<exists>b. \<forall>m \<in> set (ms :: maintenance_row list). m_mdate m < b"
proof (induction ms)
  case Nil show ?case by simp
next
  case (Cons m ms)
  then obtain b where "\<forall>m \<in> set ms. m_mdate m < b" by blast
  then have "\<forall>x \<in> set (m # ms). m_mdate x < max b (m_mdate m + 1)" by auto
  then show ?case by blast
qed

lemma day_search_returns: "\<exists>r. day_search db tid cur = Some r"
proof -
  obtain b where b: "\<forall>m \<in> set (maintenance db). m_mdate m < b"
    using mdate_bound by blast
  have "b - cur \<le> int (nat (b - cur))" by simp
  with b show ?thesis by (rule day_search_bounded)
qed

lemma maintain_loop_returns: "\<exists>r. maintain_loop date ts success db = Some r"
proof (induction ts arbitrary: success db)
  case Nil show ?case by simp
next
  case (Cons tid ts)
  obtain r where r: "day_search db tid (date + 1) = Some r"
    using day_search_returns by blast
  show ?case
  proof (cases r)
    case (Inl e) with r show ?thesis by simp
  next
    case (Inr p)
    obtain n db' where "p = (n, db')" by (cases p)
    with r Inr Cons.IH [of "success + n" db'] show ?thesis by simp
  qed
qed

text \<open>
  C10. \<open>schedule_maintenance\<close> returns on every database: the day search of a truck
  stops at once when no technician matches the truck's type, and otherwise at the
  latest on the first day after every maintenance record, where each matching
  technician is free.
\<close>

theorem schedule_maintenance_terminates: "\<exists>r. schedule_maintenance db date = Some r"
proof (cases "trucks_to_maintain db date")
  case Nil then show ?thesis by (simp add: schedule_maintenance_def)
next
  case (Cons tid rest)
  obtain r where "maintain_loop date (tid # rest) 0 db = Some r"
    using maintain_loop_returns by blast
  with Cons show ?thesis
    by (cases r) (auto simp: schedule_maintenance_def)
qed

text \<open>
  C9. The candidates of \<open>schedule_maintenance\<close> are exactly the trucks with at least
  one maintenance record, whose most recent record is more than 90 days before the
  date, and with no record from the date to ten days after it; a truck without any
  record is never a candidate.
\<close>

theorem trucks_to_maintain_exact:
  "set (trucks_to_maintain db date) = {tid. maintenance_due db date tid} \<and>
   (maintenance_dates db tid = [] \<longrightarrow> tid \<notin> set (trucks_to_maintain db date))"
proof -
  have iff: "tid \<in> set (trucks_to_maintain db date) \<longleftrightarrow> maintenance_due db date tid" for tid
  proof (cases "maintenance_dates db tid = []")
    case True
    then have "tid \<notin> m_tid ` set (maintenance db)"
      by (auto simp: maintenance_dates_def filter_empty_conv)
    with True show ?thesis
      by (simp add: trucks_to_maintain_def maintenance_due_def)
  next
    case False
    let ?D = "set (maintenance_dates db tid)"
    have ne: "?D \<noteq> {}" using False by simp
    have D: "?D = {m_mdate m |m. m \<in> set (maintenance db) \<and> m_tid m = tid}"
      by (auto simp: maintenance_dates_def)
    have mem: "tid \<in> m_tid ` set (maintenance db)" using ne D by auto
    have max: "90 < date - Max ?D \<longleftrightarrow> (\<forall>d \<in> ?D. 90 < date - d)"
    proof -
      have "Max ?D < date - 90 \<longleftrightarrow> (\<forall>d \<in> ?D. d < date - 90)"
        using ne by (simp add: Max_less_iff)
      then show ?thesis by (simp add: algebra_simps)
    qed
    have "tid \<in> set (trucks_to_maintain db date) \<longleftrightarrow>
          (\<forall>m \<in> set (maintenance db). m_tid m = tid \<longrightarrow> \<not> date - m_mdate m \<le> 90) \<and>
          (\<forall>m \<in> set (maintenance db). m_tid m = tid \<longrightarrow>
             \<not> (m_mdate m - date \<le> 10 \<and> m_mdate m - date > 0))"
      using mem by (simp add: trucks_to_maintain_def image_iff) blast
    also have "\<dots> \<longleftrightarrow>
          (\<forall>d \<in> ?D. \<not> date - d \<le> 90) \<and> (\<forall>d \<in> ?D. \<not> (d - date \<le> 10 \<and> d - date > 0))"
      unfolding D by blast
    also have "\<dots> \<longleftrightarrow> (\<forall>d \<in> ?D. 90 < date - d)" by fastforce
    also have "\<dots> \<longleftrightarrow> maintenance_due db date tid"
      unfolding maintenance_due_def max using False
      by (fastforce simp: filter_empty_conv)
    finally show ?thesis .
  qed
  show ?thesis
  proof
    show "set (trucks_to_maintain db date) = {tid. maintenance_due db date tid}"
      using iff by blast
    show "maintenance_dates db tid = [] \<longrightarrow> tid \<notin> set (trucks_to_maintain db date)"
      using iff by (simp add: maintenance_due_def)
  qed
qed


theorem trucks_to_maintain_exact_witness:
  "maintenance_dates busy_truck_db 2 = [] \<and>
   2 \<notin> set (trucks_to_maintain busy_truck_db 100) \<and>
   maintenance_due busy_truck_db 100 1 \<and>
   1 \<in> set (trucks_to_maintain busy_truck_db 100)"
  using trucks_to_maintain_exact [of busy_truck_db 100 2]
  by (simp add: maintenance_dates_def maintenance_due_def busy_truck_db_def empty_db_def)

text \<open>
  C8. The claim: a maintenance record inserted by \<open>schedule_maintenance\<close> is for a
  truck that has no trip on the record's date. The day search looks at the technicians'
  records only: truck 1, last maintained on day 0, is given day 101 although it has a
  trip on day 101.
\<close>

theorem schedule_maintenance_ignores_trips:
  "schedule_maintenance busy_truck_db 100 =
     Some (1, busy_truck_db\<lparr>maintenance := maintenance busy_truck_db @
        [\<lparr>m_tid = 1, m_eid = 7, m_mdate = 101\<rparr>]\<rparr>) \<and>
   [t \<leftarrow> trip busy_truck_db. tr_tid t = 1 \<and> date_of (tr_ttime t) = 101] \<noteq> []"
  by (simp add: schedule_maintenance_def trucks_to_maintain_def day_search.simps [of _ _ 101]
      matching_technicians_def truck_trucktype_def available_technicians_def
      busy_truck_db_def empty_db_def mk_trip_def date_of_def)

subsection \<open>Evaluation and helper lemmas for the trip schedulers\<close>

lemmas trip_defs = schedule_trip_def best_facilities_def best_trucks_def best_employees_def
  availableTrucks_def availableEmployees_def notAval_def pg_overlaps_def replace_hour_def
  date_of_def usec_per_hour_def half_hour_def trip_usec_def sql_trip_usec_def
  insert_trip_def new_trip_def mk_trip_def empty_db_def

lemma trip_usec_nonneg: "0 \<le> trip_usec len"
  by (simp add: trip_usec_def)


lemma schedule_trip_success:
  assumes "schedule_trip db rid time = (Returned True, db')"
  shows "\<exists>r rest tid e1 e2 f. [r \<leftarrow> route db. r_rid r = rid] = r # rest \<and>
           db' = insert_trip db (new_trip rid tid time e1 e2 f) \<and>
           replace_hour time 8 \<le> time \<and>
           time + trip_usec (r_length r) \<le> replace_hour time 16"
  using assms
  by (auto simp: schedule_trip_def Let_def split: list.splits if_splits option.splits)

lemma trips_loop_trips:
  "trips_loop tid e1 e2 fid off rs start i db = (n, db') \<Longrightarrow>
   \<exists>new. trip db' = trip db @ new \<and>
     (\<forall>t \<in> set new. \<exists>(rid, len) \<in> set rs. tr_rid t = rid \<and> start \<le> tr_ttime t \<and>
        tr_ttime t + trip_usec len < off)"
proof (induction rs arbitrary: start i db)
  case Nil
  then show ?case by simp
next
  case (Cons p rs)
  obtain rid len where p: "p = (rid, len)" by (cases p)
  let ?end = "start + trip_usec len"
  show ?case
  proof (cases "?end < off")
    case False
    with Cons.prems p show ?thesis by (simp add: Let_def)
  next
    case True
    let ?t = "new_trip rid tid start e1 e2 fid"
    from Cons.prems p True
    have "trips_loop tid e1 e2 fid off rs (?end + half_hour) (i + 1) (insert_trip db ?t) = (n, db')"
      by (simp add: Let_def)
    from Cons.IH [OF this] obtain new where
      new: "trip db' = trip (insert_trip db ?t) @ new"
      and all: "\<forall>t \<in> set new. \<exists>(rid, len) \<in> set rs. tr_rid t = rid \<and>
                  ?end + half_hour \<le> tr_ttime t \<and> tr_ttime t + trip_usec len < off"
      by blast
    have le: "start \<le> ?end + half_hour"
      using trip_usec_nonneg [of len] by (simp add: half_hour_def)
    have "trip db' = trip db @ (?t # new)"
      using new by (simp add: insert_trip_def)
    moreover have "\<forall>t \<in> set (?t # new). \<exists>(rid, len) \<in> set (p # rs). tr_rid t = rid \<and>
        start \<le> tr_ttime t \<and> tr_ttime t + trip_usec len < off"
    proof
      fix t assume "t \<in> set (?t # new)"
      then consider "t = ?t" | "t \<in> set new" by auto
      then show "\<exists>(rid, len) \<in> set (p # rs). tr_rid t = rid \<and>
        start \<le> tr_ttime t \<and> tr_ttime t + trip_usec len < off"
      proof cases
        case 1
        with True p show ?thesis by (simp add: new_trip_def)
      next
        case 2
        with all le show ?thesis by fastforce
      qed
    qed
    ultimately show ?thesis by blast
  qed
qed

lemma aval_route_rows:
  "(rid, len) \<in> set (aval_route db wt date) \<Longrightarrow>
   \<exists>r \<in> set (route db). r_rid r = rid \<and> r_length r = len"
  by (auto simp: aval_route_def)

lemma scan_for_driver_Some:
  "scan_for_driver tt e1 rows = Some d \<Longrightarrow> d \<in> set rows \<and> snd d = tt \<and> fst d \<noteq> e1"
  by (induction rows) (auto split: if_splits)

lemma schedule_trips_run:
  assumes run: "schedule_trips db tid date = (n, db')" and changed: "db' \<noteq> db"
  obtains tt wt ps d_one rows d_two fid fs i db2 where
    "target_truck db tid = (tt, wt) # ps"
    "aval_driver_rows db date = d_one # rows"
    "d_two \<in> set rows"
    "facilities_for db wt = fid # fs"
    "trips_loop tid (fst d_one) (fst d_two) fid (combine date 16) (aval_route db wt date)
       (combine date 8) 0 db = (i, db2)"
    "db' = db2\<lparr>avaldriver_view := True\<rparr>"
    "n = int i"
proof -
  note [simp del] = trips_loop.simps
  obtain p ps where T: "target_truck db tid = p # ps"
    using run changed by (cases "target_truck db tid") (auto simp: schedule_trips_def)
  obtain tt wt where p: "p = (tt, wt)" by (cases p)
  obtain r rs where R: "aval_route db wt date = r # rs"
    using run changed T p by (cases "aval_route db wt date") (auto simp: schedule_trips_def)
  have V: "\<not> avaldriver_view db"
    using run changed T p R by (auto simp: schedule_trips_def)
  obtain d_one rows where D: "aval_driver_rows db date = d_one # rows"
    using run changed T p R V by (cases "aval_driver_rows db date") (auto simp: schedule_trips_def)
  obtain tup rest where D': "rows = tup # rest"
    using run changed T p R V D by (cases rows) (auto simp: schedule_trips_def)
  define sel where
    "sel = (if snd d_one = tt then Some tup else scan_for_driver tt (fst d_one) (tup # rest))"
  obtain d_two where S: "sel = Some d_two"
    using run changed T p R V D D' by (cases sel) (auto simp: schedule_trips_def sel_def)
  have mem: "d_two \<in> set rows"
    using S D' scan_for_driver_Some [of tt "fst d_one" "tup # rest" d_two]
    by (auto simp: sel_def split: if_splits)
  obtain fid fs where F: "facilities_for db wt = fid # fs"
    using run changed T p R V D D' S
    by (cases "facilities_for db wt") (auto simp: schedule_trips_def sel_def [symmetric])
  obtain i db2 where L: "trips_loop tid (fst d_one) (fst d_two) fid (combine date 16) (r # rs)
       (combine date 8) 0 db = (i, db2)"
    by (cases "trips_loop tid (fst d_one) (fst d_two) fid (combine date 16) (r # rs)
       (combine date 8) 0 db")
  have "schedule_trips db tid date = (int i, db2\<lparr>avaldriver_view := True\<rparr>)"
    using T p R V D D' S F L by (simp add: schedule_trips_def sel_def [symmetric])
  with run have n: "n = int i" and db': "db' = db2\<lparr>avaldriver_view := True\<rparr>" by simp_all
  from L R have "trips_loop tid (fst d_one) (fst d_two) fid (combine date 16)
       (aval_route db wt date) (combine date 8) 0 db = (i, db2)" by simp
  with T p D mem F n db' show ?thesis using that by blast
qed

subsection \<open>schedule_trips\<close>

text \<open>
  C2. The claim: \<open>schedule_trips\<close> returns the number of trips it inserted, and a
  route that does not end before 16:00 is not counted. The loop counts iterations: on
  three routes of 2, 1 and 5 hours it inserts the first two trips (08:00 and 10:30),
  rejects the third and returns 3.
\<close>

theorem schedule_trips_counts_rejected_route:
  "schedule_trips batch_db 1 0 =
     (3, batch_db\<lparr>trip := [new_trip 1 1 28800000000 1 2 1, new_trip 2 1 37800000000 1 2 1],
                   avaldriver_view := True\<rparr>)"
  by (simp add: schedule_trips_def target_truck_def aval_route_def trips_on_def
      aval_driver_rows_def AvalDriver_def facilities_for_def combine_def usec_per_hour_def
      half_hour_def trip_usec_def insert_trip_def batch_db_def empty_db_def)

subsection \<open>schedule_trip\<close>

text \<open>
  C3. Whenever \<open>schedule_trip\<close> returns False, the database after the call is the
  database before it.
\<close>

theorem schedule_trip_no_write:
  "fst (schedule_trip db rid time) = Returned False \<Longrightarrow> snd (schedule_trip db rid time) = db"
  by (auto simp: schedule_trip_def Let_def split: list.splits if_splits option.splits)

theorem schedule_trip_no_write_witness:
  "fst (schedule_trip batch_db 3 43200000000) = Returned False \<and>
   snd (schedule_trip batch_db 3 43200000000) = batch_db"
  using schedule_trip_no_write [of batch_db 3 43200000000]
  by (simp add: trip_defs batch_db_def)

text \<open>
  C5. The claim: the second driver is the next employee in the order, and the two
  drivers of the inserted trip are two employees. The rows that are scanned are driver
  qualifications: when the first row drives the truck's type, the next row is taken
  even if it is the same employee's second qualification, and the trip gets employee 1
  twice. With the two rows of employee 1 in the other order the first row does not
  match the truck's type, employee 2 is not qualified, and no trip is scheduled,
  although employee 1 is qualified and employee 2 is next.
\<close>

theorem schedule_trip_same_driver_twice:
  "schedule_trip two_quals_db 1 28800000000 =
     (Returned True, two_quals_db\<lparr>trip := [mk_trip 1 1 28800000000 1 1 1]\<rparr>) \<and>
   schedule_trip (two_quals_db\<lparr>driver := rev (driver two_quals_db)\<rparr>) 1 28800000000 =
     (Returned False, two_quals_db\<lparr>driver := rev (driver two_quals_db)\<rparr>)"
  by (simp add: trip_defs two_quals_db_def)

text \<open>
  C7. The claim: every committed trip starts in [08:00, 16:00) and ends by 16:00, also
  on a route of length 0. \<open>schedule_trip\<close> rejects a start only when it is after
  16:00: a trip on a route of length 0 is committed at 16:00 sharp.
\<close>

theorem schedule_trip_starts_at_sixteen:
  "schedule_trip zero_route_db 1 57600000000 =
     (Returned True, zero_route_db\<lparr>trip := [mk_trip 1 1 57600000000 2 1 1]\<rparr>) \<and>
   \<not> claimed_working_hours 57600000000 0"
  by (simp add: trip_defs zero_route_db_def batch_db_def claimed_working_hours_def combine_def)

text \<open>
  C7, amended. A trip committed by \<open>schedule_trip\<close> for a start time of whole
  seconds starts in [08:00, 16:00] of its day and its computed end is at most 16:00; a
  trip committed by \<open>schedule_trips\<close> starts at or after 08:00 of the date and its
  computed end is before 16:00 of the date. (The bounds of \<open>schedule_trip\<close> are built
  with \<^verbatim>\<open>time.replace\<close>, which keeps the microseconds of the start; start times
  with a fraction of a second are left out here.)
\<close>

theorem committed_trips_working_hours:
  "(schedule_trip db rid time = (Returned True, db') \<and> time mod 1000000 = 0 \<longrightarrow>
      (\<exists>t r. trip db' = trip db @ [t] \<and> tr_rid t = rid \<and> tr_ttime t = time \<and>
         r \<in> set (route db) \<and> r_rid r = rid \<and> within_working_hours time (r_length r))) \<and>
   (schedule_trips db tid date = (n, db'') \<longrightarrow>
      (\<exists>new. trip db'' = trip db @ new \<and>
         (\<forall>t \<in> set new. \<exists>r \<in> set (route db). r_rid r = tr_rid t \<and>
            combine date 8 \<le> tr_ttime t \<and>
            tr_ttime t + trip_usec (r_length r) < combine date 16)))"
proof (intro conjI impI)
  assume "schedule_trip db rid time = (Returned True, db') \<and> time mod 1000000 = 0"
  then have run: "schedule_trip db rid time = (Returned True, db')"
    and whole: "time mod 1000000 = 0" by simp_all
  from schedule_trip_success [OF run] obtain r rest tid e1 e2 f where
    r: "[r \<leftarrow> route db. r_rid r = rid] = r # rest"
    and db': "db' = insert_trip db (new_trip rid tid time e1 e2 f)"
    and lo: "replace_hour time 8 \<le> time"
    and hi: "time + trip_usec (r_length r) \<le> replace_hour time 16"
    by blast
  have "r \<in> set [r \<leftarrow> route db. r_rid r = rid]" using r by simp
  then have rin: "r \<in> set (route db)" "r_rid r = rid" by simp_all
  have "0 \<le> trip_usec (r_length r)" by (rule trip_usec_nonneg)
  with lo hi whole have "within_working_hours time (r_length r)"
    by (simp add: within_working_hours_def replace_hour_def combine_def)
  with rin db' show "\<exists>t r. trip db' = trip db @ [t] \<and> tr_rid t = rid \<and> tr_ttime t = time \<and>
         r \<in> set (route db) \<and> r_rid r = rid \<and> within_working_hours time (r_length r)"
    by (auto simp: insert_trip_def new_trip_def)
next
  assume a: "schedule_trips db tid date = (n, db'')"
  show "\<exists>new. trip db'' = trip db @ new \<and>
         (\<forall>t \<in> set new. \<exists>r \<in> set (route db). r_rid r = tr_rid t \<and>
            combine date 8 \<le> tr_ttime t \<and>
            tr_ttime t + trip_usec (r_length r) < combine date 16)"
  proof (cases "db'' = db")
    case True
    then have "trip db'' = trip db @ []" by simp
    then show ?thesis by fastforce
  next
    case False
    with a obtain wt e1 e2 fid i db2 where
      loop: "trips_loop tid e1 e2 fid (combine date 16) (aval_route db wt date)
               (combine date 8) 0 db = (i, db2)"
      and db2: "db'' = db2\<lparr>avaldriver_view := True\<rparr>"
      by (elim schedule_trips_run)
    have "trip db'' = trip db2" using db2 by simp
    with trips_loop_trips [OF loop]
    have "\<exists>new. trip db'' = trip db @ new \<and>
     (\<forall>t \<in> set new. \<exists>(rid, len) \<in> set (aval_route db wt date). tr_rid t = rid \<and>
        combine date 8 \<le> tr_ttime t \<and> tr_ttime t + trip_usec len < combine date 16)"
      by simp
    then obtain new where
      new: "trip db'' = trip db @ new"
      and all: "\<forall>t \<in> set new. \<exists>(rid, len) \<in> set (aval_route db wt date). tr_rid t = rid \<and>
          combine date 8 \<le> tr_ttime t \<and> tr_ttime t + trip_usec len < combine date 16"
      by blast
    have "\<forall>t \<in> set new. \<exists>r \<in> set (route db). r_rid r = tr_rid t \<and>
            combine date 8 \<le> tr_ttime t \<and>
            tr_ttime t + trip_usec (r_length r) < combine date 16"
    proof
      fix t assume "t \<in> set new"
      with all obtain rid len where "(rid, len) \<in> set (aval_route db wt date)"
        "tr_rid t = rid" "combine date 8 \<le> tr_ttime t"
        "tr_ttime t + trip_usec len < combine date 16" by blast
      with aval_route_rows [of rid len db wt date]
      show "\<exists>r \<in> set (route db). r_rid r = tr_rid t \<and>
            combine date 8 \<le> tr_ttime t \<and>
            tr_ttime t + trip_usec (r_length r) < combine date 16" by auto
    qed
    with new show ?thesis by blast
  qed
qed


theorem committed_trips_working_hours_witness:
  "schedule_trip batch_db 1 28800000000 =
     (Returned True, batch_db\<lparr>trip := [mk_trip 1 1 28800000000 2 1 1]\<rparr>) \<and>
   (28800000000::int) mod 1000000 = 0 \<and>
   within_working_hours 28800000000 10 \<and>
   schedule_trips batch_db 1 0 =
     (3, batch_db\<lparr>trip := [mk_trip 1 1 28800000000 2 1 1, mk_trip 2 1 37800000000 2 1 1],
                   avaldriver_view := True\<rparr>) \<and>
   combine 0 8 \<le> 37800000000 \<and> 37800000000 + trip_usec 5 < combine 0 16"
proof -
  have 1: "schedule_trip batch_db 1 28800000000 =
     (Returned True, batch_db\<lparr>trip := [mk_trip 1 1 28800000000 2 1 1]\<rparr>)"
    by (simp add: trip_defs batch_db_def)
  have 2: "schedule_trips batch_db 1 0 =
     (3, batch_db\<lparr>trip := [mk_trip 1 1 28800000000 2 1 1, mk_trip 2 1 37800000000 2 1 1],
                   avaldriver_view := True\<rparr>)"
    by (simp add: schedule_trips_def target_truck_def aval_route_def trips_on_def
      aval_driver_rows_def AvalDriver_def facilities_for_def combine_def usec_per_hour_def
      half_hour_def trip_usec_def insert_trip_def new_trip_def mk_trip_def batch_db_def
      empty_db_def)
  have whole: "(28800000000::int) mod 1000000 = 0" by simp
  from committed_trips_working_hours [of batch_db 1 28800000000
      "batch_db\<lparr>trip := [mk_trip 1 1 28800000000 2 1 1]\<rparr>" 1 0 3
      "batch_db\<lparr>trip := [mk_trip 1 1 28800000000 2 1 1, mk_trip 2 1 37800000000 2 1 1],
                avaldriver_view := True\<rparr>"] 1 2
    whole
  have "\<exists>t r. trip (batch_db\<lparr>trip := [mk_trip 1 1 28800000000 2 1 1]\<rparr>) = trip batch_db @ [t] \<and>
     tr_rid t = 1 \<and> tr_ttime t = 28800000000 \<and> r \<in> set (route batch_db) \<and> r_rid r = 1 \<and>
     within_working_hours 28800000000 (r_length r)"
    by blast
  then have 3: "within_working_hours 28800000000 10"
    by (auto simp: batch_db_def empty_db_def)
  have 4: "combine 0 8 \<le> 37800000000 \<and> 37800000000 + trip_usec 5 < combine 0 16"
    by (simp add: combine_def trip_usec_def usec_per_hour_def)
  from 1 2 3 4 whole show ?thesis by blast
qed







subsection \<open>Separation of trips\<close>

lemmas trips_defs = schedule_trips_def target_truck_def aval_route_def trips_on_def
  aval_driver_rows_def AvalDriver_def facilities_for_def combine_def

lemmas window_defs = trip_windows_def computed_end_def share_resource_def apart_def

text \<open>
  C4. The claim: every operation keeps two trips that share a truck or a driver from
  overlapping with their half hour of buffer, also \<open>schedule_trips\<close> on a truck that
  has trips on the date. \<open>schedule_trips\<close> picks drivers without a trip on the date
  and routes without a trip on the date, but never looks at the trips of the truck it
  schedules: truck 1, on a trip from 08:00 to 10:00 of day 0, gets a second trip at
  08:00 and a third at 09:30 of the same day, and the invariant, which held before the
  call, does not hold after it.
\<close>

theorem schedule_trips_double_books_truck:
  "half_hour_apart busy_day_db \<and>
   schedule_trips busy_day_db 1 0 =
     (2, busy_day_db\<lparr>trip := [mk_trip 1 1 28800000000 2 1 1, mk_trip 2 1 28800000000 4 3 1,
                                mk_trip 3 1 34200000000 4 3 1],
                       avaldriver_view := True\<rparr>) \<and>
   \<not> half_hour_apart (snd (schedule_trips busy_day_db 1 0))"
  by (simp add: trips_defs trip_defs window_defs half_hour_apart_def
      batch_db_def busy_day_db_def)

end
